theory Spec2Isabelle
  imports Complex_Main "HOL-Library.Word" "HOL-Library.Monad_Syntax"
begin

section \<open>The feed poller (src/raw/gtfs\_rt\_raw\_ingest.py)\<close>

text \<open>
  The poller is a \<^verbatim>\<open>while True\<close> loop around a \<^verbatim>\<open>try\<close> block. Everything it reads
  from the outside world in one iteration (the HTTP response, the clock, whether the
  file system accepts the write) is collected in an \<open>iteration_env\<close>; the loop is run
  over a finite list of such environments, one per iteration. The protobuf decoder is a
  deterministic function of the bytes and is passed as a parameter. The handler catches
  \<^verbatim>\<open>Exception\<close>; an interrupt from the keyboard is not one and is not modelled.
\<close>

type_synonym bytes = "8 word list"

text \<open>The three places of the \<^verbatim>\<open>try\<close> block that raise.\<close>

datatype error = RequestException | DecodeError | OSError

record params =
  url :: string
  volume_path :: string
  poll_interval :: rat
  message_name :: string

record iteration_env =
  fetched :: "error + bytes"  \<comment> \<open>what \<^verbatim>\<open>fetch_gtfs_rt_data(url)\<close> returns or raises\<close>
  current_date :: string  \<comment> \<open>\<^verbatim>\<open>now.strftime("%Y-%m-%d")\<close>\<close>
  epoch_time :: int  \<comment> \<open>\<^verbatim>\<open>int(now.timestamp())\<close>\<close>
  write_fails :: bool  \<comment> \<open>\<^verbatim>\<open>os.makedirs\<close>, \<^verbatim>\<open>open\<close> or \<^verbatim>\<open>json.dump\<close> raises\<close>

text \<open>
  The local variables of \<^verbatim>\<open>run_continuous_ingestion\<close>, the files written so far (in
  the order of the writes, each with its path and the decoded document) and the
  durations handed to \<^verbatim>\<open>time.sleep\<close>.
\<close>

record 'j poller_state =
  last_data :: "bytes option"
  consecutive_errors :: nat
  volume :: "(string \<times> 'j) list"
  slept :: "rat list"

datatype 'j outcome = Continue "'j poller_state" | Raise error "'j poller_state"

fun state_of :: "'j outcome \<Rightarrow> 'j poller_state" where
  "state_of (Continue s) = s"
| "state_of (Raise e s) = s"

definition max_consecutive_errors :: nat where
  "max_consecutive_errors = 10"

text \<open>\<^verbatim>\<open>os.path.join\<close> of two components on a POSIX system.\<close>

definition os_path_join :: "string \<Rightarrow> string \<Rightarrow> string" where
  "os_path_join a b =
     (case b of
        c # _ \<Rightarrow>
          if c = CHR ''/'' then b
          else if a = [] then b
          else if last a = CHR ''/'' then a @ b
          else a @ ''/'' @ b
      | [] \<Rightarrow>
          if a = [] then []
          else if last a = CHR ''/'' then a
          else a @ ''/'')"

text \<open>Decimal formatting of an integer inside an f-string.\<close>

fun str_nat :: "nat \<Rightarrow> string" where
  "str_nat n =
     (if n < 10 then [''0123456789'' ! n]
      else str_nat (n div 10) @ [''0123456789'' ! (n mod 10)])"

declare str_nat.simps [simp del]

definition str_int :: "int \<Rightarrow> string" where
  "str_int i = (if i < 0 then ''-'' @ str_nat (nat (- i)) else str_nat (nat i))"

definition file_path_of :: "params \<Rightarrow> iteration_env \<Rightarrow> string" where
  "file_path_of p env =
     os_path_join
       (os_path_join (volume_path p) (''dt='' @ current_date env))
       (message_name p @ ''_'' @ str_int (epoch_time env) @ ''.json'')"

definition time_sleep :: "rat \<Rightarrow> 'j poller_state \<Rightarrow> 'j poller_state" where
  "time_sleep d s = s\<lparr>slept := slept s @ [d]\<rparr>"

text \<open>
  The body of the \<^verbatim>\<open>try\<close> block: \<open>Inl\<close> is the exception raised, \<open>Inr\<close> the state
  at the end of the block. No assignment to a loop variable precedes a raising call,
  so an exception leaves the state as it was.
\<close>

definition try_body ::
  "params \<Rightarrow> (bytes \<Rightarrow> error + 'j) \<Rightarrow> 'j poller_state \<Rightarrow> iteration_env
     \<Rightarrow> error + 'j poller_state" where
  "try_body p protobuf_to_json s env =
     (case fetched env of
        Inl e \<Rightarrow> Inl e
      | Inr current_data \<Rightarrow>
          if Some current_data \<noteq> last_data s then
            (case protobuf_to_json current_data of
               Inl e \<Rightarrow> Inl e
             | Inr json_data \<Rightarrow>
                 if write_fails env then Inl OSError
                 else Inr (s\<lparr>volume := volume s @ [(file_path_of p env, json_data)],
                             last_data := Some current_data,
                             consecutive_errors := 0\<rparr>))
          else Inr s)"

text \<open>One pass of the loop: the \<^verbatim>\<open>try\<close> block, its handler, and the sleep.\<close>

definition iteration ::
  "params \<Rightarrow> (bytes \<Rightarrow> error + 'j) \<Rightarrow> 'j poller_state \<Rightarrow> iteration_env \<Rightarrow> 'j outcome" where
  "iteration p protobuf_to_json s env =
     (case try_body p protobuf_to_json s env of
        Inr s' \<Rightarrow> Continue (time_sleep (1 / 2) s')
      | Inl e \<Rightarrow>
          if consecutive_errors s + 1 \<ge> max_consecutive_errors
          then Raise e (s\<lparr>consecutive_errors := consecutive_errors s + 1\<rparr>)
          else Continue (time_sleep (1 / 2) (s\<lparr>consecutive_errors := consecutive_errors s + 1\<rparr>)))"

text \<open>
  The loop over the iterations the environment provides. \<open>Continue s\<close> says that the
  loop is still running, in state \<open>s\<close>, after the last of them; \<open>Raise e s\<close> that the
  exception \<open>e\<close> left the function.
\<close>

fun while_True ::
  "params \<Rightarrow> (bytes \<Rightarrow> error + 'j) \<Rightarrow> 'j poller_state \<Rightarrow> iteration_env list \<Rightarrow> 'j outcome" where
  "while_True p protobuf_to_json s [] = Continue s"
| "while_True p protobuf_to_json s (env # envs) =
     (case iteration p protobuf_to_json s env of
        Continue s' \<Rightarrow> while_True p protobuf_to_json s' envs
      | Raise e s' \<Rightarrow> Raise e s')"

definition initial_state :: "'j poller_state" where
  "initial_state = \<lparr>last_data = None, consecutive_errors = 0, volume = [], slept = []\<rparr>"

definition run_continuous_ingestion ::
  "params \<Rightarrow> (bytes \<Rightarrow> error + 'j) \<Rightarrow> iteration_env list \<Rightarrow> 'j outcome" where
  "run_continuous_ingestion p protobuf_to_json envs =
     while_True p protobuf_to_json initial_state envs"

subsection \<open>Concrete inputs\<close>

definition default_params :: params where
  "default_params =
     \<lparr>url = ''https://realtime.hsl.fi/realtime/vehicle-positions/v2/hsl'',
      volume_path = ''/Volumes/prod_lakehouse/vehicle/gtfs_rt_raw/'',
      poll_interval = 5,
      message_name = ''vehicle_positions''\<rparr>"

text \<open>A decoder that accepts every payload but the empty one and returns its length.\<close>

definition decode_len :: "bytes \<Rightarrow> error + nat" where
  "decode_len b = (if b = [] then Inl DecodeError else Inr (length b))"

definition payload_b :: bytes where
  "payload_b = [8, 1]"

definition env_ok :: iteration_env where
  "env_ok = \<lparr>fetched = Inr payload_b, current_date = ''2025-01-01'',
             epoch_time = 1735689600, write_fails = False\<rparr>"

definition env_fetch_fails :: iteration_env where
  "env_fetch_fails = \<lparr>fetched = Inl RequestException, current_date = ''2025-01-01'',
             epoch_time = 1735689601, write_fails = False\<rparr>"

definition env_write_fails :: iteration_env where
  "env_write_fails = \<lparr>fetched = Inr payload_b, current_date = ''2025-01-01'',
             epoch_time = 1735689599, write_fails = True\<rparr>"

definition path_ok :: string where
  "path_ok = ''/Volumes/prod_lakehouse/vehicle/gtfs_rt_raw/dt=2025-01-01/vehicle_positions_1735689600.json''"

section \<open>Double-precision numbers\<close>

text \<open>
  Spark's \<^verbatim>\<open>double\<close> is IEEE 754 binary64. A finite double is modelled by the rational
  number it denotes (the two zeros are identified); arithmetic rounds the exact result
  to the nearest representable number, ties to the even significand, as the JVM does.
\<close>

datatype double = Finite rat | PosInf | NegInf | NaN

definition pow2 :: "int \<Rightarrow> rat" where
  "pow2 e = (if 0 \<le> e then 2 ^ nat e else 1 / 2 ^ nat (- e))"

function bit_length :: "int \<Rightarrow> int" where
  "bit_length n = (if n \<le> 0 then 0 else 1 + bit_length (n div 2))"
  by pat_completeness auto
termination
  by (relation "measure nat") auto

declare bit_length.simps [simp del]

text \<open>The integer \<open>k\<close> with \<open>2 ^ k \<le> x < 2 ^ (k + 1)\<close>, for a positive \<open>x\<close>.\<close>

definition floor_log2 :: "rat \<Rightarrow> int" where
  "floor_log2 x =
     (let n = bit_length (fst (quotient_of x)) - bit_length (snd (quotient_of x))
      in if pow2 n \<le> x then n else n - 1)"

definition round_half_even :: "rat \<Rightarrow> int" where
  "round_half_even x =
     (let f = \<lfloor>x\<rfloor>; d = x - of_int f
      in if d < 1 / 2 then f
         else if 1 / 2 < d then f + 1
         else if even f then f
         else f + 1)"

text \<open>
  Rounding to binary64: 53 bits of significand, the unit in the last place never
  below \<open>2 ^ (-1074)\<close> (subnormal numbers), overflow to an infinity from \<open>2 ^ 1024\<close> on.
\<close>

definition round_double :: "rat \<Rightarrow> double" where
  "round_double x =
     (if x = 0 then Finite 0
      else
        let e = max (floor_log2 \<bar>x\<bar> - 52) (- 1074);
            r = of_int (round_half_even (\<bar>x\<bar> / pow2 e)) * pow2 e
        in if pow2 1024 \<le> r then (if 0 < x then PosInf else NegInf)
           else Finite (if 0 < x then r else - r))"

fun dmul :: "double \<Rightarrow> double \<Rightarrow> double" where
  "dmul (Finite a) (Finite b) = round_double (a * b)"
| "dmul NaN _ = NaN"
| "dmul _ NaN = NaN"
| "dmul (Finite a) PosInf = (if a = 0 then NaN else if 0 < a then PosInf else NegInf)"
| "dmul (Finite a) NegInf = (if a = 0 then NaN else if 0 < a then NegInf else PosInf)"
| "dmul PosInf (Finite b) = (if b = 0 then NaN else if 0 < b then PosInf else NegInf)"
| "dmul NegInf (Finite b) = (if b = 0 then NaN else if 0 < b then NegInf else PosInf)"
| "dmul PosInf PosInf = PosInf"
| "dmul PosInf NegInf = NegInf"
| "dmul NegInf PosInf = NegInf"
| "dmul NegInf NegInf = PosInf"

text \<open>The Python literal \<^verbatim>\<open>3.6\<close>: the double nearest to 36/10.\<close>

definition lit_3_6 :: double where
  "lit_3_6 = round_double (36 / 10)"

section \<open>The bronze and silver tables (src/pipeline/gtfs.py)\<close>

subsection \<open>The decoded feed, as the JSON reader infers it\<close>

text \<open>
  Every column and every field of a struct is nullable: \<open>None\<close> is SQL's \<^verbatim>\<open>NULL\<close>.
  The inferred schema is taken to hold every field the tables select.
  The 64-bit integers of the feed (the timestamps) arrive as JSON strings. Field names
  are those of the feed, prefixed with an abbreviation of the message they belong to.
\<close>

record TripDescriptor =
  td_route_id :: "string option"
  td_direction_id :: "int option"
  td_start_date :: "string option"
  td_start_time :: "string option"
  td_schedule_relationship :: "string option"

record VehicleDescriptor =
  vd_id :: "string option"
  vd_label :: "string option"

record Position =
  pos_latitude :: "double option"
  pos_longitude :: "double option"
  pos_bearing :: "double option"
  pos_speed :: "double option"
  pos_odometer :: "double option"

record VehiclePosition =
  vp_vehicle :: "VehicleDescriptor option"
  vp_trip :: "TripDescriptor option"
  vp_position :: "Position option"
  vp_current_status :: "string option"
  vp_occupancy_status :: "string option"
  vp_stop_id :: "string option"
  vp_timestamp :: "string option"

record StopTimeEvent =
  ste_time :: "string option"
  ste_uncertainty :: "int option"

record StopTimeProperties =
  stp_assigned_stop_id :: "string option"

record StopTimeUpdate =
  stu_stop_id :: "string option"
  stu_stop_sequence :: "int option"
  stu_schedule_relationship :: "string option"
  stu_arrival :: "StopTimeEvent option"
  stu_departure :: "StopTimeEvent option"
  stu_stop_time_properties :: "StopTimeProperties option"

record TripUpdate =
  tu_trip :: "TripDescriptor option"
  tu_timestamp :: "string option"
  tu_stop_time_update :: "StopTimeUpdate list option"

record Translation =
  tr_text :: "string option"
  tr_language :: "string option"

record TranslatedString =
  ts_translation :: "Translation list option"

record TimeRange =
  range_start :: "string option"
  range_end :: "string option"

record EntitySelector =
  es_agency_id :: "string option"
  es_route_id :: "string option"
  es_stop_id :: "string option"

record Alert =
  al_cause :: "string option"
  al_effect :: "string option"
  al_severity_level :: "string option"
  al_header_text :: "TranslatedString option"
  al_description_text :: "TranslatedString option"
  al_url :: "TranslatedString option"
  al_active_period :: "TimeRange list option"
  al_informed_entity :: "EntitySelector list option"

record FeedEntity =
  fe_id :: "string option"
  fe_vehicle :: "VehiclePosition option"
  fe_trip_update :: "TripUpdate option"
  fe_alert :: "Alert option"

record FeedHeader =
  fh_timestamp :: "string option"

text \<open>A row of a bronze table: the document of one file and the ingestion metadata.\<close>

record bronze_row =
  entity :: "FeedEntity list option"
  header :: "FeedHeader option"
  dt :: string
  file_metadata :: string
  ingestion_timestamp :: int

subsection \<open>Column functions\<close>

text \<open>
  What the session decides: how a string is cast to \<^verbatim>\<open>bigint\<close> and how
  \<^verbatim>\<open>from_unixtime\<close> prints epoch seconds in the session's time zone.
\<close>

record session =
  cast_bigint :: "string \<Rightarrow> int option"
  from_unixtime :: "int \<Rightarrow> string"

definition from_unixtime_col :: "session \<Rightarrow> string option \<Rightarrow> string option" where
  "from_unixtime_col ses c = map_option (from_unixtime ses) (c \<bind> cast_bigint ses)"

text \<open>\<^verbatim>\<open>explode\<close> yields one row per element, and none for a null or empty array.\<close>

definition explode_col :: "'a list option \<Rightarrow> 'a list" where
  "explode_col c = (case c of None \<Rightarrow> [] | Some xs \<Rightarrow> xs)"

text \<open>\<^verbatim>\<open>column[i]\<close> is null outside the array (ANSI mode off, Spark's default).\<close>

definition get_item :: "'a list option \<Rightarrow> nat \<Rightarrow> 'a option" where
  "get_item c i =
     (case c of None \<Rightarrow> None | Some xs \<Rightarrow> if i < length xs then Some (xs ! i) else None)"

text \<open>\<^verbatim>\<open>concat\<close> of string columns is null as soon as one of them is.\<close>

fun concat_col :: "string option list \<Rightarrow> string option" where
  "concat_col [] = Some []"
| "concat_col (None # cs) = None"
| "concat_col (Some s # cs) = map_option ((@) s) (concat_col cs)"

definition lit :: "'a \<Rightarrow> 'a option" where
  "lit v = Some v"

text \<open>The first \<^verbatim>\<open>select\<close> of every silver table: one row per element of \<^verbatim>\<open>entity\<close>.\<close>

record exploded_row =
  entity_exploded :: FeedEntity
  ex_header :: "FeedHeader option"
  ex_dt :: string
  ex_file_metadata :: string
  ex_ingestion_timestamp :: int

definition select_explode_entity :: "bronze_row list \<Rightarrow> exploded_row list" where
  "select_explode_entity rows =
     concat (map (\<lambda>r.
       map (\<lambda>e. \<lparr>entity_exploded = e, ex_header = header r, ex_dt = dt r,
                  ex_file_metadata = file_metadata r,
                  ex_ingestion_timestamp = ingestion_timestamp r\<rparr>)
           (explode_col (entity r))) rows)"

subsection \<open>silver\_vehicle\_positions\<close>

record Point =
  geo_x :: "double option"
  geo_y :: "double option"

record VehiclePositionRow =
  vpr_entity_id :: "string option"
  vpr_vehicle_id :: "string option"
  vpr_vehicle_label :: "string option"
  vpr_route_id :: "string option"
  vpr_direction_id :: "int option"
  vpr_trip_start_date :: "string option"
  vpr_trip_start_time :: "string option"
  vpr_schedule_relationship :: "string option"
  vpr_latitude :: "double option"
  vpr_longitude :: "double option"
  vpr_bearing :: "double option"
  vpr_speed_mps :: "double option"
  vpr_odometer :: "double option"
  vpr_current_status :: "string option"
  vpr_occupancy_status :: "string option"
  vpr_current_stop_id :: "string option"
  vpr_vehicle_timestamp :: "string option"
  vpr_feed_timestamp :: "string option"
  vpr_dt :: string
  vpr_file_metadata :: string
  vpr_ingestion_timestamp :: int
  vpr_speed_kmh :: "double option"
  vpr_bearing_degrees :: "double option"
  vpr_geometry_point :: Point

definition vehicle_position_columns :: "session \<Rightarrow> exploded_row \<Rightarrow> VehiclePositionRow" where
  "vehicle_position_columns ses x =
     \<lparr>vpr_entity_id = fe_id (entity_exploded x),
      vpr_vehicle_id = fe_vehicle (entity_exploded x) \<bind> vp_vehicle \<bind> vd_id,
      vpr_vehicle_label = fe_vehicle (entity_exploded x) \<bind> vp_vehicle \<bind> vd_label,
      vpr_route_id = fe_vehicle (entity_exploded x) \<bind> vp_trip \<bind> td_route_id,
      vpr_direction_id = fe_vehicle (entity_exploded x) \<bind> vp_trip \<bind> td_direction_id,
      vpr_trip_start_date = fe_vehicle (entity_exploded x) \<bind> vp_trip \<bind> td_start_date,
      vpr_trip_start_time = fe_vehicle (entity_exploded x) \<bind> vp_trip \<bind> td_start_time,
      vpr_schedule_relationship =
        fe_vehicle (entity_exploded x) \<bind> vp_trip \<bind> td_schedule_relationship,
      vpr_latitude = fe_vehicle (entity_exploded x) \<bind> vp_position \<bind> pos_latitude,
      vpr_longitude = fe_vehicle (entity_exploded x) \<bind> vp_position \<bind> pos_longitude,
      vpr_bearing = fe_vehicle (entity_exploded x) \<bind> vp_position \<bind> pos_bearing,
      vpr_speed_mps = fe_vehicle (entity_exploded x) \<bind> vp_position \<bind> pos_speed,
      vpr_odometer = fe_vehicle (entity_exploded x) \<bind> vp_position \<bind> pos_odometer,
      vpr_current_status = fe_vehicle (entity_exploded x) \<bind> vp_current_status,
      vpr_occupancy_status = fe_vehicle (entity_exploded x) \<bind> vp_occupancy_status,
      vpr_current_stop_id = fe_vehicle (entity_exploded x) \<bind> vp_stop_id,
      vpr_vehicle_timestamp =
        from_unixtime_col ses (fe_vehicle (entity_exploded x) \<bind> vp_timestamp),
      vpr_feed_timestamp = from_unixtime_col ses (ex_header x \<bind> fh_timestamp),
      vpr_dt = ex_dt x,
      vpr_file_metadata = ex_file_metadata x,
      vpr_ingestion_timestamp = ex_ingestion_timestamp x,
      vpr_speed_kmh =
        map_option (\<lambda>speed. dmul speed lit_3_6)
          (fe_vehicle (entity_exploded x) \<bind> vp_position \<bind> pos_speed),
      vpr_bearing_degrees =
        (case fe_vehicle (entity_exploded x) \<bind> vp_position \<bind> pos_bearing of
           Some b \<Rightarrow> Some b
         | None \<Rightarrow> None),
      vpr_geometry_point =
        \<lparr>geo_x = fe_vehicle (entity_exploded x) \<bind> vp_position \<bind> pos_longitude,
         geo_y = fe_vehicle (entity_exploded x) \<bind> vp_position \<bind> pos_latitude\<rparr>\<rparr>"

definition silver_vehicle_positions :: "session \<Rightarrow> bronze_row list \<Rightarrow> VehiclePositionRow list" where
  "silver_vehicle_positions ses bronze_vehicle_positions =
     map (vehicle_position_columns ses) (select_explode_entity bronze_vehicle_positions)"

subsection \<open>silver\_trip\_updates\<close>

text \<open>The second \<^verbatim>\<open>select\<close> holds the generator: one row per stop time update.\<close>

record trip_update_exploded_row =
  s2_entity_id :: "string option"
  s2_route_id :: "string option"
  s2_direction_id :: "int option"
  s2_trip_start_date :: "string option"
  s2_trip_start_time :: "string option"
  s2_trip_schedule_relationship :: "string option"
  s2_trip_update_timestamp :: "string option"
  s2_stop_update :: StopTimeUpdate
  s2_feed_timestamp :: "string option"
  s2_dt :: string
  s2_file_metadata :: string
  s2_ingestion_timestamp :: int

definition select_explode_stop_time_update ::
  "session \<Rightarrow> exploded_row \<Rightarrow> trip_update_exploded_row list" where
  "select_explode_stop_time_update ses x =
     map (\<lambda>u.
       \<lparr>s2_entity_id = fe_id (entity_exploded x),
        s2_route_id = fe_trip_update (entity_exploded x) \<bind> tu_trip \<bind> td_route_id,
        s2_direction_id = fe_trip_update (entity_exploded x) \<bind> tu_trip \<bind> td_direction_id,
        s2_trip_start_date = fe_trip_update (entity_exploded x) \<bind> tu_trip \<bind> td_start_date,
        s2_trip_start_time = fe_trip_update (entity_exploded x) \<bind> tu_trip \<bind> td_start_time,
        s2_trip_schedule_relationship =
          fe_trip_update (entity_exploded x) \<bind> tu_trip \<bind> td_schedule_relationship,
        s2_trip_update_timestamp =
          from_unixtime_col ses (fe_trip_update (entity_exploded x) \<bind> tu_timestamp),
        s2_stop_update = u,
        s2_feed_timestamp = from_unixtime_col ses (ex_header x \<bind> fh_timestamp),
        s2_dt = ex_dt x,
        s2_file_metadata = ex_file_metadata x,
        s2_ingestion_timestamp = ex_ingestion_timestamp x\<rparr>)
       (explode_col (fe_trip_update (entity_exploded x) \<bind> tu_stop_time_update))"

record TripStopUpdateRow =
  tsu_entity_id :: "string option"
  tsu_route_id :: "string option"
  tsu_direction_id :: "int option"
  tsu_trip_start_date :: "string option"
  tsu_trip_start_time :: "string option"
  tsu_trip_schedule_relationship :: "string option"
  tsu_trip_update_timestamp :: "string option"
  tsu_feed_timestamp :: "string option"
  tsu_stop_id :: "string option"
  tsu_stop_sequence :: "int option"
  tsu_stop_schedule_relationship :: "string option"
  tsu_predicted_arrival_time :: "string option"
  tsu_arrival_uncertainty_seconds :: "int option"
  tsu_predicted_departure_time :: "string option"
  tsu_departure_uncertainty_seconds :: "int option"
  tsu_assigned_stop_id :: "string option"
  tsu_dt :: string
  tsu_file_metadata :: string
  tsu_ingestion_timestamp :: int
  tsu_trip_id :: "string option"

definition trip_stop_update_columns :: "session \<Rightarrow> trip_update_exploded_row \<Rightarrow> TripStopUpdateRow" where
  "trip_stop_update_columns ses y =
     \<lparr>tsu_entity_id = s2_entity_id y,
      tsu_route_id = s2_route_id y,
      tsu_direction_id = s2_direction_id y,
      tsu_trip_start_date = s2_trip_start_date y,
      tsu_trip_start_time = s2_trip_start_time y,
      tsu_trip_schedule_relationship = s2_trip_schedule_relationship y,
      tsu_trip_update_timestamp = s2_trip_update_timestamp y,
      tsu_feed_timestamp = s2_feed_timestamp y,
      tsu_stop_id = stu_stop_id (s2_stop_update y),
      tsu_stop_sequence = stu_stop_sequence (s2_stop_update y),
      tsu_stop_schedule_relationship = stu_schedule_relationship (s2_stop_update y),
      tsu_predicted_arrival_time =
        from_unixtime_col ses (stu_arrival (s2_stop_update y) \<bind> ste_time),
      tsu_arrival_uncertainty_seconds = stu_arrival (s2_stop_update y) \<bind> ste_uncertainty,
      tsu_predicted_departure_time =
        from_unixtime_col ses (stu_departure (s2_stop_update y) \<bind> ste_time),
      tsu_departure_uncertainty_seconds = stu_departure (s2_stop_update y) \<bind> ste_uncertainty,
      tsu_assigned_stop_id =
        stu_stop_time_properties (s2_stop_update y) \<bind> stp_assigned_stop_id,
      tsu_dt = s2_dt y,
      tsu_file_metadata = s2_file_metadata y,
      tsu_ingestion_timestamp = s2_ingestion_timestamp y,
      tsu_trip_id =
        concat_col [s2_route_id y, lit ''_'', s2_trip_start_date y, lit ''_'',
                    s2_trip_start_time y]\<rparr>"

definition silver_trip_updates :: "session \<Rightarrow> bronze_row list \<Rightarrow> TripStopUpdateRow list" where
  "silver_trip_updates ses bronze_trip_updates =
     map (trip_stop_update_columns ses)
       (concat (map (select_explode_stop_time_update ses)
                  (select_explode_entity bronze_trip_updates)))"

subsection \<open>silver\_service\_alerts and silver\_service\_alerts\_entities\<close>

record ServiceAlertRow =
  sa_alert_id :: "string option"
  sa_cause :: "string option"
  sa_effect :: "string option"
  sa_severity_level :: "string option"
  sa_header_text :: "string option"
  sa_header_language :: "string option"
  sa_description_text :: "string option"
  sa_description_language :: "string option"
  sa_url :: "string option"
  sa_active_periods :: "TimeRange list option"
  sa_informed_entities :: "EntitySelector list option"
  sa_feed_timestamp :: "string option"
  sa_dt :: string
  sa_file_metadata :: string
  sa_ingestion_timestamp :: int

definition service_alert_columns :: "session \<Rightarrow> exploded_row \<Rightarrow> ServiceAlertRow" where
  "service_alert_columns ses x =
     \<lparr>sa_alert_id = fe_id (entity_exploded x),
      sa_cause = fe_alert (entity_exploded x) \<bind> al_cause,
      sa_effect = fe_alert (entity_exploded x) \<bind> al_effect,
      sa_severity_level = fe_alert (entity_exploded x) \<bind> al_severity_level,
      sa_header_text =
        get_item (fe_alert (entity_exploded x) \<bind> al_header_text \<bind> ts_translation) 0
          \<bind> tr_text,
      sa_header_language =
        get_item (fe_alert (entity_exploded x) \<bind> al_header_text \<bind> ts_translation) 0
          \<bind> tr_language,
      sa_description_text =
        get_item (fe_alert (entity_exploded x) \<bind> al_description_text \<bind> ts_translation) 0
          \<bind> tr_text,
      sa_description_language =
        get_item (fe_alert (entity_exploded x) \<bind> al_description_text \<bind> ts_translation) 0
          \<bind> tr_language,
      sa_url =
        get_item (fe_alert (entity_exploded x) \<bind> al_url \<bind> ts_translation) 0 \<bind> tr_text,
      sa_active_periods = fe_alert (entity_exploded x) \<bind> al_active_period,
      sa_informed_entities = fe_alert (entity_exploded x) \<bind> al_informed_entity,
      sa_feed_timestamp = from_unixtime_col ses (ex_header x \<bind> fh_timestamp),
      sa_dt = ex_dt x,
      sa_file_metadata = ex_file_metadata x,
      sa_ingestion_timestamp = ex_ingestion_timestamp x\<rparr>"

definition silver_service_alerts :: "session \<Rightarrow> bronze_row list \<Rightarrow> ServiceAlertRow list" where
  "silver_service_alerts ses bronze_service_alerts =
     map (service_alert_columns ses) (select_explode_entity bronze_service_alerts)"

record alert_exploded_row =
  a2_alert_id :: "string option"
  a2_cause :: "string option"
  a2_effect :: "string option"
  a2_severity_level :: "string option"
  a2_header_text :: "string option"
  a2_description_text :: "string option"
  a2_url :: "string option"
  a2_feed_timestamp :: "string option"
  a2_entity :: EntitySelector
  a2_dt :: string
  a2_ingestion_timestamp :: int

definition select_explode_informed_entities :: "ServiceAlertRow \<Rightarrow> alert_exploded_row list" where
  "select_explode_informed_entities a =
     map (\<lambda>ie.
       \<lparr>a2_alert_id = sa_alert_id a,
        a2_cause = sa_cause a,
        a2_effect = sa_effect a,
        a2_severity_level = sa_severity_level a,
        a2_header_text = sa_header_text a,
        a2_description_text = sa_description_text a,
        a2_url = sa_url a,
        a2_feed_timestamp = sa_feed_timestamp a,
        a2_entity = ie,
        a2_dt = sa_dt a,
        a2_ingestion_timestamp = sa_ingestion_timestamp a\<rparr>)
       (explode_col (sa_informed_entities a))"

record AlertEntityRow =
  ae_alert_id :: "string option"
  ae_cause :: "string option"
  ae_effect :: "string option"
  ae_severity_level :: "string option"
  ae_header_text :: "string option"
  ae_description_text :: "string option"
  ae_url :: "string option"
  ae_feed_timestamp :: "string option"
  ae_affected_agency_id :: "string option"
  ae_affected_route_id :: "string option"
  ae_affected_stop_id :: "string option"
  ae_dt :: string
  ae_ingestion_timestamp :: int

definition alert_entity_columns :: "alert_exploded_row \<Rightarrow> AlertEntityRow" where
  "alert_entity_columns y =
     \<lparr>ae_alert_id = a2_alert_id y,
      ae_cause = a2_cause y,
      ae_effect = a2_effect y,
      ae_severity_level = a2_severity_level y,
      ae_header_text = a2_header_text y,
      ae_description_text = a2_description_text y,
      ae_url = a2_url y,
      ae_feed_timestamp = a2_feed_timestamp y,
      ae_affected_agency_id = es_agency_id (a2_entity y),
      ae_affected_route_id = es_route_id (a2_entity y),
      ae_affected_stop_id = es_stop_id (a2_entity y),
      ae_dt = a2_dt y,
      ae_ingestion_timestamp = a2_ingestion_timestamp y\<rparr>"

definition silver_service_alerts_entities :: "ServiceAlertRow list \<Rightarrow> AlertEntityRow list" where
  "silver_service_alerts_entities silver_service_alerts_table =
     map alert_entity_columns
       (concat (map select_explode_informed_entities silver_service_alerts_table))"

subsection \<open>Concrete inputs for the tables\<close>

text \<open>
  A session that casts unsigned decimal strings and prints epoch seconds as they are.
\<close>

definition digit_of :: "char \<Rightarrow> int option" where
  "digit_of c =
     (if (48::int) \<le> of_char c \<and> of_char c \<le> (57::int) then Some (of_char c - 48) else None)"

fun parse_digits :: "int \<Rightarrow> string \<Rightarrow> int option" where
  "parse_digits acc [] = Some acc"
| "parse_digits acc (c # cs) =
     (case digit_of c of None \<Rightarrow> None | Some d \<Rightarrow> parse_digits (10 * acc + d) cs)"

definition plain_session :: session where
  "plain_session =
     \<lparr>cast_bigint = (\<lambda>s. if s = [] then None else parse_digits 0 s),
      from_unixtime = str_int\<rparr>"

definition bronze_doc :: "FeedEntity list \<Rightarrow> bronze_row" where
  "bronze_doc es =
     \<lparr>entity = Some es, header = Some \<lparr>fh_timestamp = Some ''1735689600''\<rparr>,
      dt = ''2025-01-01'', file_metadata = ''vehicle_positions_1735689600.json'',
      ingestion_timestamp = 1735689605\<rparr>"

definition stop_update :: "string \<Rightarrow> int \<Rightarrow> StopTimeUpdate" where
  "stop_update sid seq =
     \<lparr>stu_stop_id = Some sid, stu_stop_sequence = Some seq, stu_schedule_relationship = None,
      stu_arrival = None, stu_departure = None, stu_stop_time_properties = None\<rparr>"

definition trip_55 :: TripDescriptor where
  "trip_55 =
     \<lparr>td_route_id = Some ''55'', td_direction_id = Some 0, td_start_date = Some ''20250101'',
      td_start_time = Some ''08:00:00'', td_schedule_relationship = None\<rparr>"

definition trip_entity :: "StopTimeUpdate list \<Rightarrow> FeedEntity" where
  "trip_entity us =
     \<lparr>fe_id = Some ''e1'', fe_vehicle = None,
      fe_trip_update = Some \<lparr>tu_trip = Some trip_55, tu_timestamp = None,
                              tu_stop_time_update = Some us\<rparr>,
      fe_alert = None\<rparr>"

definition vehicle_entity :: "double option \<Rightarrow> FeedEntity" where
  "vehicle_entity speed =
     \<lparr>fe_id = Some ''v1'',
      fe_vehicle = Some \<lparr>vp_vehicle = Some \<lparr>vd_id = Some ''bus7'', vd_label = None\<rparr>,
                          vp_trip = None,
                          vp_position = Some \<lparr>pos_latitude = Some (Finite 60),
                                               pos_longitude = Some (Finite 25),
                                               pos_bearing = None, pos_speed = speed,
                                               pos_odometer = None\<rparr>,
                          vp_current_status = None, vp_occupancy_status = None,
                          vp_stop_id = None, vp_timestamp = None\<rparr>,
      fe_trip_update = None, fe_alert = None\<rparr>"

definition selector :: "string \<Rightarrow> EntitySelector" where
  "selector r = \<lparr>es_agency_id = None, es_route_id = Some r, es_stop_id = None\<rparr>"

definition alert_entity :: FeedEntity where
  "alert_entity =
     \<lparr>fe_id = Some ''a1'', fe_vehicle = None, fe_trip_update = None,
      fe_alert = Some \<lparr>al_cause = Some ''ACCIDENT'', al_effect = Some ''DETOUR'',
                        al_severity_level = None, al_header_text = None,
                        al_description_text = None, al_url = None, al_active_period = None,
                        al_informed_entity = Some [selector ''55'', selector ''56'']\<rparr>\<rparr>"

section \<open>Properties of the feed poller\<close>

subsection \<open>Basic facts about one iteration\<close>

lemma file_path_of_env_ok: "file_path_of default_params env_ok = path_ok"
  by (simp add: file_path_of_def default_params_def env_ok_def path_ok_def os_path_join_def
      str_int_def str_nat.simps)

lemmas poller_defs = run_continuous_ingestion_def initial_state_def iteration_def try_body_def
  time_sleep_def max_consecutive_errors_def

lemma env_ok_fields:
  "fetched env_ok = Inr payload_b" "write_fails env_ok = False"
  by (simp_all add: env_ok_def)

lemma env_fetch_fails_fields:
  "fetched env_fetch_fails = Inl RequestException"
  by (simp_all add: env_fetch_fails_def)

lemma env_write_fails_fields:
  "fetched env_write_fails = Inr payload_b" "write_fails env_write_fails = True"
  by (simp_all add: env_write_fails_def)

lemma decode_len_payload_b: "decode_len payload_b = Inr 2"
  by (simp add: decode_len_def payload_b_def)

lemmas concrete_simps = env_ok_fields env_fetch_fails_fields env_write_fails_fields
  decode_len_payload_b file_path_of_env_ok

lemma iteration_noop:
  "fetched env = Inr b \<Longrightarrow> last_data s = Some b \<Longrightarrow>
   iteration p dec s env = Continue (s\<lparr>slept := slept s @ [1 / 2]\<rparr>)"
  by (simp add: iteration_def try_body_def time_sleep_def)

lemma iteration_store:
  "fetched env = Inr b \<Longrightarrow> last_data s \<noteq> Some b \<Longrightarrow> dec b = Inr j \<Longrightarrow> \<not> write_fails env \<Longrightarrow>
   iteration p dec s env =
     Continue (s\<lparr>volume := volume s @ [(file_path_of p env, j)], last_data := Some b,
                consecutive_errors := 0, slept := slept s @ [1 / 2]\<rparr>)"
  by (auto simp add: iteration_def try_body_def time_sleep_def)

lemma iteration_failed:
  "try_body p dec s env = Inl e \<Longrightarrow>
   iteration p dec s env =
     (if max_consecutive_errors \<le> consecutive_errors s + 1
      then Raise e (s\<lparr>consecutive_errors := consecutive_errors s + 1\<rparr>)
      else Continue (s\<lparr>consecutive_errors := consecutive_errors s + 1,
                       slept := slept s @ [1 / 2]\<rparr>))"
  by (simp add: iteration_def time_sleep_def)

lemma try_body_cases:
  "try_body p dec s env = Inr s' \<Longrightarrow>
     s' = s \<or> (\<exists>b j. fetched env = Inr b \<and> last_data s \<noteq> Some b \<and> dec b = Inr j \<and> \<not> write_fails env \<and>
        s' = s\<lparr>volume := volume s @ [(file_path_of p env, j)], last_data := Some b,
                consecutive_errors := 0\<rparr>)"
  by (auto simp: try_body_def split: sum.splits if_splits)

lemma while_True_noops:
  "\<forall>env\<in>set envs. fetched env = Inr b \<Longrightarrow> last_data s = Some b \<Longrightarrow>
   while_True p dec s envs = Continue (s\<lparr>slept := slept s @ replicate (length envs) (1 / 2)\<rparr>)"
proof (induction envs arbitrary: s)
  case Nil
  then show ?case by simp
next
  case (Cons env envs)
  then have "iteration p dec s env = Continue (s\<lparr>slept := slept s @ [1 / 2]\<rparr>)"
    by (simp add: iteration_noop)
  moreover have "while_True p dec (s\<lparr>slept := slept s @ [1 / 2]\<rparr>) envs =
     Continue (s\<lparr>slept := slept s @ [1 / 2]\<rparr>\<lparr>slept := slept (s\<lparr>slept := slept s @ [1 / 2]\<rparr>) @ replicate (length envs) (1 / 2)\<rparr>)"
    using Cons.prems by (intro Cons.IH) simp_all
  ultimately show ?case by (simp add: replicate_app_Cons_same)
qed

lemma same_payload_at_most_one_write:
  "\<forall>env\<in>set envs. fetched env = Inr b \<Longrightarrow>
   length (volume (state_of (while_True p dec s envs))) \<le> length (volume s) + 1"
proof (induction envs arbitrary: s)
  case Nil
  then show ?case by simp
next
  case (Cons env envs)
  have fb: "fetched env = Inr b" and rest: "\<forall>env\<in>set envs. fetched env = Inr b"
    using Cons.prems by simp_all
  show ?case
  proof (cases "try_body p dec s env")
    case (Inl e)
    show ?thesis
    proof (cases "max_consecutive_errors \<le> consecutive_errors s + 1")
      case True
      then show ?thesis using Inl by (simp add: iteration_failed)
    next
      case False
      then show ?thesis using Inl Cons.IH [OF rest, of "s\<lparr>consecutive_errors := consecutive_errors s + 1,
                       slept := slept s @ [1 / 2]\<rparr>"]
        by (simp add: iteration_failed)
    qed
  next
    case (Inr s')
    then have it: "iteration p dec s env = Continue (time_sleep (1 / 2) s')"
      by (simp add: iteration_def)
    from Inr fb have ld: "last_data s' = Some b" and len: "length (volume s') \<le> length (volume s) + 1"
      by (auto simp: try_body_def split: sum.splits if_splits)
    have "while_True p dec (time_sleep (1 / 2) s') envs =
        Continue ((time_sleep (1 / 2) s')\<lparr>slept := slept (time_sleep (1 / 2) s') @ replicate (length envs) (1 / 2)\<rparr>)"
      using rest ld by (intro while_True_noops) (simp_all add: time_sleep_def)
    then show ?thesis using it len by (simp add: time_sleep_def)
  qed
qed

lemma iteration_sleep:
  "iteration p dec s env = Continue s' \<Longrightarrow> slept s' = slept s @ [1 / 2]"
  by (auto simp: iteration_def time_sleep_def try_body_def split: sum.splits if_splits)

subsection \<open>Runs of identical payloads\<close>

text \<open>
  Claim C1, as the code has it. The payload is compared with the bytes last stored, not
  with the bytes last fetched. In a run of consecutive fetches that all return the same
  bytes \<open>b\<close>, at most one record is written; if the first fetch of the run differs from
  the bytes last stored and its decoding and its write succeed, exactly one record is
  written, by that first fetch, and every later fetch of the run is a no-op that writes
  nothing (the loop keeps running, the error counter is zero).
\<close>

theorem unchanged_run_one_record:
  assumes "\<forall>e\<in>set (env # envs). fetched e = Inr b"
  shows "length (volume (state_of (while_True p dec s (env # envs)))) \<le> length (volume s) + 1
    \<and> (last_data s \<noteq> Some b \<and> dec b = Inr j \<and> \<not> write_fails env \<longrightarrow>
        while_True p dec s (env # envs) =
          Continue (s\<lparr>volume := volume s @ [(file_path_of p env, j)], last_data := Some b,
                consecutive_errors := 0,
                slept := slept s @ replicate (Suc (length envs)) (1 / 2)\<rparr>))"
proof (intro conjI impI)
  show "length (volume (state_of (while_True p dec s (env # envs)))) \<le> length (volume s) + 1"
    using assms by (rule same_payload_at_most_one_write)
next
  assume h: "last_data s \<noteq> Some b \<and> dec b = Inr j \<and> \<not> write_fails env"
  let ?s' = "s\<lparr>volume := volume s @ [(file_path_of p env, j)], last_data := Some b,
                consecutive_errors := 0, slept := slept s @ [1 / 2]\<rparr>"
  have "iteration p dec s env = Continue ?s'"
    using assms h by (simp add: iteration_store)
  moreover have "while_True p dec ?s' envs =
      Continue (?s'\<lparr>slept := slept ?s' @ replicate (length envs) (1 / 2)\<rparr>)"
    using assms by (intro while_True_noops) simp_all
  ultimately show "while_True p dec s (env # envs) =
          Continue (s\<lparr>volume := volume s @ [(file_path_of p env, j)], last_data := Some b,
                consecutive_errors := 0,
                slept := slept s @ replicate (Suc (length envs)) (1 / 2)\<rparr>)"
    by (simp add: replicate_app_Cons_same)
qed

theorem unchanged_run_one_record_witness:
  "fetched env_ok = Inr payload_b \<and> last_data (initial_state :: nat poller_state) \<noteq> Some payload_b
   \<and> decode_len payload_b = Inr 2 \<and> \<not> write_fails env_ok
   \<and> length (volume (state_of (while_True default_params decode_len initial_state [env_ok, env_ok, env_ok]))) \<le> 1
   \<and> while_True default_params decode_len initial_state [env_ok, env_ok, env_ok] =
       Continue \<lparr>last_data = Some payload_b, consecutive_errors = 0,
                 volume = [(path_ok, 2)], slept = [1 / 2, 1 / 2, 1 / 2]\<rparr>"
  using unchanged_run_one_record [of env_ok "[env_ok, env_ok]" payload_b default_params decode_len initial_state 2]
  by (simp add: concrete_simps initial_state_def)

text \<open>
  Claim C1 as stated fails when the first fetch of the run is not stored: the write of
  the first fetch raises, nothing is written, and the second fetch, byte-identical to the
  first, is not a no-op: it writes the record.
\<close>

theorem unchanged_run_first_fetch_not_stored:
  "fetched env_ok = fetched env_write_fails
   \<and> run_continuous_ingestion default_params decode_len [env_write_fails] =
       Continue \<lparr>last_data = None, consecutive_errors = 1, volume = [], slept = [1 / 2]\<rparr>
   \<and> run_continuous_ingestion default_params decode_len [env_write_fails, env_ok] =
       Continue \<lparr>last_data = Some payload_b, consecutive_errors = 0,
                 volume = [(path_ok, 2)], slept = [1 / 2, 1 / 2]\<rparr>"
  by (simp add: poller_defs concrete_simps)

subsection \<open>The sleep between iterations\<close>

text \<open>
  Claim C2. The function is called with \<open>poll_interval = 5\<close>; the duration handed to
  \<^verbatim>\<open>time.sleep\<close> after the iteration is one half, whatever the argument.
\<close>

theorem sleep_ignores_poll_interval:
  "slept (state_of (run_continuous_ingestion default_params decode_len [env_ok])) = [1 / 2]
   \<and> poll_interval default_params = 5"
  by (simp add: poller_defs concrete_simps) (simp add: default_params_def)

subsection \<open>The error counter\<close>

text \<open>
  Claim C3. After a stored fetch and a failed fetch the counter is 1. The third iteration
  fetches the stored bytes again: the \<^verbatim>\<open>try\<close> block completes without raising and
  writes nothing, and the counter is still 1.
\<close>

theorem noop_success_keeps_error_count:
  "run_continuous_ingestion default_params decode_len [env_ok, env_fetch_fails] =
     Continue \<lparr>last_data = Some payload_b, consecutive_errors = 1,
               volume = [(path_ok, 2)], slept = [1 / 2, 1 / 2]\<rparr>
   \<and> try_body default_params decode_len
        \<lparr>last_data = Some payload_b, consecutive_errors = 1,
          volume = [(path_ok, 2)], slept = [1 / 2, 1 / 2]\<rparr> env_ok =
       Inr \<lparr>last_data = Some payload_b, consecutive_errors = 1,
             volume = [(path_ok, 2)], slept = [1 / 2, 1 / 2]\<rparr>
   \<and> run_continuous_ingestion default_params decode_len [env_ok, env_fetch_fails, env_ok] =
       Continue \<lparr>last_data = Some payload_b, consecutive_errors = 1,
                 volume = [(path_ok, 2)], slept = [1 / 2, 1 / 2, 1 / 2]\<rparr>"
  by (simp add: poller_defs concrete_simps)

text \<open>
  Counted from a state in which the counter is what the failures add up to, the
  threshold behaves as announced: the loop goes on below it and raises on reaching it.
\<close>

lemma try_body_last_data_only:
  "last_data s = last_data s' \<Longrightarrow> isl (try_body p dec s env) = isl (try_body p dec s' env)"
  by (auto simp: try_body_def split: sum.splits)

lemma failures_below_threshold:
  "\<forall>env\<in>set envs. isl (try_body p dec s env) \<Longrightarrow>
   consecutive_errors s + length envs < max_consecutive_errors \<Longrightarrow>
   while_True p dec s envs =
     Continue (s\<lparr>consecutive_errors := consecutive_errors s + length envs,
                slept := slept s @ replicate (length envs) (1 / 2)\<rparr>)"
proof (induction envs arbitrary: s)
  case Nil
  then show ?case by simp
next
  case (Cons env envs)
  let ?s' = "s\<lparr>consecutive_errors := consecutive_errors s + 1, slept := slept s @ [1 / 2]\<rparr>"
  from Cons.prems obtain e where e: "try_body p dec s env = Inl e"
    by (cases "try_body p dec s env") auto
  have it: "iteration p dec s env = Continue ?s'"
    using e Cons.prems(2) by (simp add: iteration_failed)
  have "\<forall>env\<in>set envs. isl (try_body p dec ?s' env)"
    using Cons.prems(1) try_body_last_data_only [of s ?s'] by simp
  then have "while_True p dec ?s' envs =
     Continue (?s'\<lparr>consecutive_errors := consecutive_errors ?s' + length envs,
                slept := slept ?s' @ replicate (length envs) (1 / 2)\<rparr>)"
    using Cons.prems(2) by (intro Cons.IH) simp_all
  then show ?case using it by (simp add: replicate_app_Cons_same)
qed

lemma failure_at_threshold:
  "try_body p dec s env = Inl e \<Longrightarrow> consecutive_errors s + 1 = max_consecutive_errors \<Longrightarrow>
   iteration p dec s env = Raise e (s\<lparr>consecutive_errors := max_consecutive_errors\<rparr>)"
  by (simp add: iteration_failed)

text \<open>
  Claim C4. One stored fetch, nine failed fetches, one fetch of the stored bytes (a
  successful iteration that writes nothing) and one more failed fetch: the loop is still
  running, with the counter at 9, after the eleventh iteration, and the twelfth raises,
  after a single failure in a row.
\<close>

theorem fatal_after_nonconsecutive_failures:
  "run_continuous_ingestion default_params decode_len
      (env_ok # replicate 9 env_fetch_fails @ [env_ok]) =
     Continue \<lparr>last_data = Some payload_b, consecutive_errors = 9,
               volume = [(path_ok, 2)], slept = replicate 11 (1 / 2)\<rparr>
   \<and> run_continuous_ingestion default_params decode_len
        (env_ok # replicate 9 env_fetch_fails @ [env_ok, env_fetch_fails]) =
       Raise RequestException \<lparr>last_data = Some payload_b, consecutive_errors = 10,
               volume = [(path_ok, 2)], slept = replicate 11 (1 / 2)\<rparr>"
  by (simp add: poller_defs concrete_simps eval_nat_numeral)

subsection \<open>Failed iterations and the bytes last stored\<close>

text \<open>
  Claim C10. An iteration whose \<^verbatim>\<open>try\<close> block raises leaves \<open>last_data\<close> and the
  files as they were. If it had fetched the bytes \<open>b\<close>, an iteration that fetches \<open>b\<close>
  in the state it leaves does not take the no-op branch: it decodes \<open>b\<close> again and, when
  the decoding and the write succeed, stores the record.
\<close>

theorem failed_iteration_keeps_last_data:
  assumes "try_body p dec s env = Inl e"
  shows "last_data (state_of (iteration p dec s env)) = last_data s
    \<and> volume (state_of (iteration p dec s env)) = volume s
    \<and> (\<forall>b env'. fetched env = Inr b \<and> fetched env' = Inr b \<longrightarrow>
          try_body p dec (state_of (iteration p dec s env)) env' =
            (case dec b of
               Inl e' \<Rightarrow> Inl e'
             | Inr j \<Rightarrow>
                 if write_fails env' then Inl OSError
                 else Inr ((state_of (iteration p dec s env))
                            \<lparr>volume := volume s @ [(file_path_of p env', j)],
                             last_data := Some b, consecutive_errors := 0\<rparr>)))"
proof -
  define s' where "s' = state_of (iteration p dec s env)"
  have ld: "last_data s' = last_data s" and vol: "volume s' = volume s"
    using assms by (simp_all add: s'_def iteration_failed)
  have changed: "Some b \<noteq> last_data s" if "fetched env = Inr b" for b
    using assms that by (auto simp: try_body_def split: sum.splits if_splits)
  have "try_body p dec s' env' =
            (case dec b of
               Inl e' \<Rightarrow> Inl e'
             | Inr j \<Rightarrow>
                 if write_fails env' then Inl OSError
                 else Inr (s'\<lparr>volume := volume s @ [(file_path_of p env', j)],
                             last_data := Some b, consecutive_errors := 0\<rparr>))"
    if "fetched env = Inr b" "fetched env' = Inr b" for b env'
    using that changed [OF that(1)] by (simp add: try_body_def ld vol split: sum.splits)
  then show ?thesis
    using ld vol unfolding s'_def by blast
qed

theorem failed_iteration_keeps_last_data_witness:
  "try_body default_params decode_len initial_state env_write_fails = Inl OSError
   \<and> fetched env_write_fails = Inr payload_b \<and> fetched env_ok = Inr payload_b
   \<and> last_data (state_of (iteration default_params decode_len (initial_state :: nat poller_state) env_write_fails)) = None
   \<and> try_body default_params decode_len
        (state_of (iteration default_params decode_len initial_state env_write_fails)) env_ok =
      Inr \<lparr>last_data = Some payload_b, consecutive_errors = 0,
            volume = [(path_ok, 2)], slept = [1 / 2]\<rparr>"
proof -
  have h: "try_body default_params decode_len initial_state env_write_fails = Inl OSError"
    by (simp add: try_body_def concrete_simps initial_state_def)
  show ?thesis
    using failed_iteration_keeps_last_data [OF h] h
    by (simp add: concrete_simps iteration_failed max_consecutive_errors_def initial_state_def)
qed

section \<open>Properties of the silver tables\<close>

subsection \<open>The rows of a table, entity by entity\<close>

lemma select_explode_entity_append:
  "select_explode_entity (b1 @ b2) = select_explode_entity b1 @ select_explode_entity b2"
  by (simp add: select_explode_entity_def)

lemma select_explode_entity_single:
  "select_explode_entity [r] =
     concat (map (\<lambda>e. select_explode_entity [r\<lparr>entity := Some [e]\<rparr>]) (explode_col (entity r)))"
  by (simp add: select_explode_entity_def explode_col_def concat_map_singleton split: option.splits)

lemma select_explode_entity_by_entity:
  "select_explode_entity bronze =
     concat (map (\<lambda>r. concat (map (\<lambda>e. select_explode_entity [r\<lparr>entity := Some [e]\<rparr>])
        (explode_col (entity r)))) bronze)"
proof (induction bronze)
  case Nil
  then show ?case by (simp add: select_explode_entity_def)
next
  case (Cons r bronze)
  have "select_explode_entity (r # bronze) = select_explode_entity [r] @ select_explode_entity bronze"
    using select_explode_entity_append [of "[r]" bronze] by simp
  then show ?case using Cons.IH select_explode_entity_single [of r] by simp
qed

lemma entities_of_select_explode_entity:
  "map entity_exploded (select_explode_entity bronze) =
     concat (map (\<lambda>r. explode_col (entity r)) bronze)"
  by (induction bronze) (simp_all add: select_explode_entity_def comp_def)

lemma rows_of_concat:
  "map f (concat (map g (concat xss))) = concat (map (\<lambda>xs. map f (concat (map g xs))) xss)"
  by (induction xss) simp_all

lemmas table_defs = select_explode_entity_def explode_col_def bronze_doc_def

lemmas trip_update_defs = silver_trip_updates_def select_explode_stop_time_update_def
  trip_stop_update_columns_def trip_entity_def trip_55_def stop_update_def lit_def

lemmas vehicle_defs = silver_vehicle_positions_def vehicle_position_columns_def
  vehicle_entity_def

lemmas alert_defs = silver_service_alerts_def service_alert_columns_def
  silver_service_alerts_entities_def select_explode_informed_entities_def
  alert_entity_columns_def alert_entity_def selector_def

subsection \<open>silver\_trip\_updates\<close>

text \<open>
  Claim C5. The rows of \<open>silver_trip_updates\<close> are, record by record and entity by
  entity, the rows that each entity gives on its own. An entity gives as many rows as its
  \<^verbatim>\<open>stop_time_update\<close> list has elements (none when the list is empty or absent), and
  the row of an element carries the entity's \<open>entity_id\<close> and \<open>route_id\<close> and that
  element's \<open>stop_id\<close> and \<open>stop_sequence\<close>.
\<close>

theorem trip_updates_fan_out:
  "silver_trip_updates ses bronze =
     concat (map (\<lambda>r. concat (map (\<lambda>e. silver_trip_updates ses [r\<lparr>entity := Some [e]\<rparr>])
        (explode_col (entity r)))) bronze)
   \<and> length (silver_trip_updates ses [r\<lparr>entity := Some [e]\<rparr>]) =
       length (explode_col (fe_trip_update e \<bind> tu_stop_time_update))
   \<and> map (\<lambda>row. (tsu_entity_id row, tsu_route_id row, tsu_stop_id row, tsu_stop_sequence row))
         (silver_trip_updates ses [r\<lparr>entity := Some [e]\<rparr>]) =
       map (\<lambda>u. (fe_id e, fe_trip_update e \<bind> tu_trip \<bind> td_route_id,
                  stu_stop_id u, stu_stop_sequence u))
         (explode_col (fe_trip_update e \<bind> tu_stop_time_update))"
proof (intro conjI)
  show "silver_trip_updates ses bronze =
     concat (map (\<lambda>r. concat (map (\<lambda>e. silver_trip_updates ses [r\<lparr>entity := Some [e]\<rparr>])
        (explode_col (entity r)))) bronze)"
    unfolding silver_trip_updates_def
    by (subst select_explode_entity_by_entity) (simp add: rows_of_concat comp_def)
next
  show "length (silver_trip_updates ses [r\<lparr>entity := Some [e]\<rparr>]) =
       length (explode_col (fe_trip_update e \<bind> tu_stop_time_update))"
    by (simp add: silver_trip_updates_def select_explode_entity_def
        select_explode_stop_time_update_def explode_col_def)
next
  show "map (\<lambda>row. (tsu_entity_id row, tsu_route_id row, tsu_stop_id row, tsu_stop_sequence row))
         (silver_trip_updates ses [r\<lparr>entity := Some [e]\<rparr>]) =
       map (\<lambda>u. (fe_id e, fe_trip_update e \<bind> tu_trip \<bind> td_route_id,
                  stu_stop_id u, stu_stop_sequence u))
         (explode_col (fe_trip_update e \<bind> tu_stop_time_update))"
    by (simp add: silver_trip_updates_def select_explode_entity_def
        select_explode_stop_time_update_def trip_stop_update_columns_def comp_def
        explode_col_def [of "Some [e]"])
qed

text \<open>An entity with three stop time updates and an entity with none.\<close>

theorem trip_updates_fan_out_witness:
  "map (\<lambda>row. (tsu_entity_id row, tsu_route_id row, tsu_stop_id row, tsu_stop_sequence row))
     (silver_trip_updates plain_session
        [bronze_doc [trip_entity [stop_update ''A'' 1, stop_update ''B'' 2, stop_update ''C'' 3]]]) =
     [(Some ''e1'', Some ''55'', Some ''A'', Some 1),
      (Some ''e1'', Some ''55'', Some ''B'', Some 2),
      (Some ''e1'', Some ''55'', Some ''C'', Some 3)]
   \<and> silver_trip_updates plain_session [bronze_doc [trip_entity []]] = []"
  using trip_updates_fan_out [where ses = plain_session and bronze = "[bronze_doc [trip_entity []]]"
      and r = "bronze_doc []" and e = "trip_entity []"]
    trip_updates_fan_out [where ses = plain_session and bronze = "[]" and r = "bronze_doc []"
      and e = "trip_entity [stop_update ''A'' 1, stop_update ''B'' 2, stop_update ''C'' 3]"]
  by (simp add: table_defs trip_update_defs)

lemma concat_col_joined:
  "concat_col [a, lit s1, b, lit s2, c] =
     (case a of None \<Rightarrow> None
      | Some x \<Rightarrow> (case b of None \<Rightarrow> None
         | Some y \<Rightarrow> (case c of None \<Rightarrow> None
            | Some z \<Rightarrow> Some (x @ s1 @ y @ s2 @ z))))"
  by (simp add: lit_def split: option.splits)

lemma trip_id_of_columns:
  "tsu_trip_id (trip_stop_update_columns ses y) =
     concat_col [tsu_route_id (trip_stop_update_columns ses y), lit ''_'',
                 tsu_trip_start_date (trip_stop_update_columns ses y), lit ''_'',
                 tsu_trip_start_time (trip_stop_update_columns ses y)]"
  by (simp add: trip_stop_update_columns_def)

text \<open>
  Claim C6. In every row of \<open>silver_trip_updates\<close>, \<open>trip_id\<close> is \<open>route_id\<close>,
  \<open>trip_start_date\<close> and \<open>trip_start_time\<close> joined by \<open>_\<close>; it is null when one of the
  three is null, as SQL's \<^verbatim>\<open>concat\<close> has it.
\<close>

theorem trip_id_is_joined_key:
  "\<forall>row \<in> set (silver_trip_updates ses bronze).
     (\<forall>r d t. tsu_route_id row = Some r \<and> tsu_trip_start_date row = Some d
               \<and> tsu_trip_start_time row = Some t
        \<longrightarrow> tsu_trip_id row = Some (r @ ''_'' @ d @ ''_'' @ t))
     \<and> (tsu_route_id row = None \<or> tsu_trip_start_date row = None
          \<or> tsu_trip_start_time row = None
        \<longrightarrow> tsu_trip_id row = None)"
proof
  fix row assume "row \<in> set (silver_trip_updates ses bronze)"
  then obtain y where row: "row = trip_stop_update_columns ses y"
    by (auto simp: silver_trip_updates_def)
  have "tsu_trip_id row =
     concat_col [tsu_route_id row, lit ''_'', tsu_trip_start_date row, lit ''_'',
                 tsu_trip_start_time row]"
    unfolding row by (rule trip_id_of_columns)
  then show "(\<forall>r d t. tsu_route_id row = Some r \<and> tsu_trip_start_date row = Some d
               \<and> tsu_trip_start_time row = Some t
        \<longrightarrow> tsu_trip_id row = Some (r @ ''_'' @ d @ ''_'' @ t))
     \<and> (tsu_route_id row = None \<or> tsu_trip_start_date row = None
          \<or> tsu_trip_start_time row = None
        \<longrightarrow> tsu_trip_id row = None)"
    by (auto simp: concat_col_joined split: option.splits)
qed

text \<open>Route 55, start date 20250101, start time 08:00:00.\<close>

theorem trip_id_is_joined_key_witness:
  "map (\<lambda>row. (tsu_route_id row, tsu_trip_start_date row, tsu_trip_start_time row, tsu_trip_id row))
     (silver_trip_updates plain_session [bronze_doc [trip_entity [stop_update ''A'' 1]]]) =
     [(Some ''55'', Some ''20250101'', Some ''08:00:00'', Some ''55_20250101_08:00:00'')]"
  using trip_id_is_joined_key [of plain_session "[bronze_doc [trip_entity [stop_update ''A'' 1]]]"]
  by (simp add: table_defs trip_update_defs)

subsection \<open>silver\_vehicle\_positions\<close>

lemma ten_times_3_6: "dmul (Finite 10) lit_3_6 = Finite 36"
  by code_simp

lemma speed_columns:
  "vpr_speed_mps (vehicle_position_columns ses x) =
     fe_vehicle (entity_exploded x) \<bind> vp_position \<bind> pos_speed"
  "vpr_speed_kmh (vehicle_position_columns ses x) =
     map_option (\<lambda>speed. dmul speed lit_3_6) (vpr_speed_mps (vehicle_position_columns ses x))"
  by (simp_all add: vehicle_position_columns_def)

text \<open>
  Claim C7. In every row of \<open>silver_vehicle_positions\<close>, \<open>speed_kmh\<close> is the double
  product of \<open>speed_mps\<close> and 3.6 when \<open>speed_mps\<close> is present and null when it is
  null; \<open>speed_mps\<close> is the entity's \<^verbatim>\<open>vehicle.position.speed\<close>; and the product of
  10.0 and 3.6 is exactly 36.0.
\<close>

theorem speed_kmh_derivation:
  "(\<forall>row \<in> set (silver_vehicle_positions ses bronze).
      (\<forall>speed. vpr_speed_mps row = Some speed \<longrightarrow> vpr_speed_kmh row = Some (dmul speed lit_3_6))
      \<and> (vpr_speed_mps row = None \<longrightarrow> vpr_speed_kmh row = None))
   \<and> map vpr_speed_mps (silver_vehicle_positions ses bronze) =
       map (\<lambda>e. fe_vehicle e \<bind> vp_position \<bind> pos_speed)
         (concat (map (\<lambda>r. explode_col (entity r)) bronze))
   \<and> dmul (Finite 10) lit_3_6 = Finite 36"
proof (intro conjI ballI)
  fix row assume "row \<in> set (silver_vehicle_positions ses bronze)"
  then obtain x where row: "row = vehicle_position_columns ses x"
    by (auto simp: silver_vehicle_positions_def)
  show "\<forall>speed. vpr_speed_mps row = Some speed \<longrightarrow> vpr_speed_kmh row = Some (dmul speed lit_3_6)"
    unfolding row by (simp add: speed_columns(2))
  show "vpr_speed_mps row = None \<longrightarrow> vpr_speed_kmh row = None"
    unfolding row by (simp add: speed_columns(2))
next
  have "map vpr_speed_mps (silver_vehicle_positions ses bronze) =
      map (\<lambda>e. fe_vehicle e \<bind> vp_position \<bind> pos_speed)
        (map entity_exploded (select_explode_entity bronze))"
    by (simp add: silver_vehicle_positions_def speed_columns(1) comp_def)
  then show "map vpr_speed_mps (silver_vehicle_positions ses bronze) =
       map (\<lambda>e. fe_vehicle e \<bind> vp_position \<bind> pos_speed)
         (concat (map (\<lambda>r. explode_col (entity r)) bronze))"
    by (simp only: entities_of_select_explode_entity)
next
  show "dmul (Finite 10) lit_3_6 = Finite 36" by (rule ten_times_3_6)
qed

theorem speed_kmh_derivation_witness:
  "map (\<lambda>row. (vpr_speed_mps row, vpr_speed_kmh row))
     (silver_vehicle_positions plain_session
        [bronze_doc [vehicle_entity (Some (Finite 10)), vehicle_entity None]]) =
     [(Some (Finite 10), Some (Finite 36)), (None, None)]"
  using speed_kmh_derivation [of plain_session "[bronze_doc [vehicle_entity (Some (Finite 10)), vehicle_entity None]]"]
  by (simp add: table_defs vehicle_defs)

lemma vehicle_position_columns_entity_id:
  "vpr_entity_id (vehicle_position_columns ses x) = fe_id (entity_exploded x)"
  by (simp add: vehicle_position_columns_def)

lemma vehicle_position_columns_no_trip:
  "fe_vehicle (entity_exploded x) \<bind> vp_trip = None \<Longrightarrow>
     vpr_route_id (vehicle_position_columns ses x) = None
     \<and> vpr_direction_id (vehicle_position_columns ses x) = None
     \<and> vpr_trip_start_date (vehicle_position_columns ses x) = None
     \<and> vpr_trip_start_time (vehicle_position_columns ses x) = None
     \<and> vpr_schedule_relationship (vehicle_position_columns ses x) = None"
  by (simp add: vehicle_position_columns_def)

lemma vehicle_position_columns_no_position:
  "fe_vehicle (entity_exploded x) \<bind> vp_position = None \<Longrightarrow>
     vpr_latitude (vehicle_position_columns ses x) = None
     \<and> vpr_longitude (vehicle_position_columns ses x) = None
     \<and> vpr_bearing (vehicle_position_columns ses x) = None
     \<and> vpr_speed_mps (vehicle_position_columns ses x) = None
     \<and> vpr_speed_kmh (vehicle_position_columns ses x) = None"
  by (simp add: vehicle_position_columns_def)

lemma vehicle_position_columns_no_vehicle:
  "fe_vehicle (entity_exploded x) = None \<Longrightarrow>
     vpr_vehicle_id (vehicle_position_columns ses x) = None
     \<and> vpr_route_id (vehicle_position_columns ses x) = None
     \<and> vpr_latitude (vehicle_position_columns ses x) = None
     \<and> vpr_longitude (vehicle_position_columns ses x) = None
     \<and> vpr_speed_kmh (vehicle_position_columns ses x) = None
     \<and> vpr_current_status (vehicle_position_columns ses x) = None
     \<and> vpr_vehicle_timestamp (vehicle_position_columns ses x) = None"
  by (simp add: vehicle_position_columns_def from_unixtime_col_def)

text \<open>
  Claim C8, as the code has it. The table has no filter on the variant of an entity:
  every entity of a record's \<^verbatim>\<open>entity\<close> list gives exactly one row, in order, whether
  its \<^verbatim>\<open>vehicle\<close> field is populated or not. A missing trip block leaves the trip
  columns null, a missing position block the position columns, and an entity without the
  \<^verbatim>\<open>vehicle\<close> field gives a row whose vehicle columns are all null.
\<close>

theorem vehicle_positions_one_row_per_entity:
  "length (silver_vehicle_positions ses bronze) =
     length (concat (map (\<lambda>r. explode_col (entity r)) bronze))
   \<and> list_all2
       (\<lambda>e row.
          vpr_entity_id row = fe_id e
          \<and> (fe_vehicle e \<bind> vp_trip = None \<longrightarrow>
               vpr_route_id row = None \<and> vpr_direction_id row = None
               \<and> vpr_trip_start_date row = None \<and> vpr_trip_start_time row = None
               \<and> vpr_schedule_relationship row = None)
          \<and> (fe_vehicle e \<bind> vp_position = None \<longrightarrow>
               vpr_latitude row = None \<and> vpr_longitude row = None \<and> vpr_bearing row = None
               \<and> vpr_speed_mps row = None \<and> vpr_speed_kmh row = None)
          \<and> (fe_vehicle e = None \<longrightarrow>
               vpr_vehicle_id row = None \<and> vpr_route_id row = None
               \<and> vpr_latitude row = None \<and> vpr_longitude row = None
               \<and> vpr_speed_kmh row = None \<and> vpr_current_status row = None
               \<and> vpr_vehicle_timestamp row = None))
       (concat (map (\<lambda>r. explode_col (entity r)) bronze))
       (silver_vehicle_positions ses bronze)"
proof -
  let ?P = "\<lambda>e row.
          vpr_entity_id row = fe_id e
          \<and> (fe_vehicle e \<bind> vp_trip = None \<longrightarrow>
               vpr_route_id row = None \<and> vpr_direction_id row = None
               \<and> vpr_trip_start_date row = None \<and> vpr_trip_start_time row = None
               \<and> vpr_schedule_relationship row = None)
          \<and> (fe_vehicle e \<bind> vp_position = None \<longrightarrow>
               vpr_latitude row = None \<and> vpr_longitude row = None \<and> vpr_bearing row = None
               \<and> vpr_speed_mps row = None \<and> vpr_speed_kmh row = None)
          \<and> (fe_vehicle e = None \<longrightarrow>
               vpr_vehicle_id row = None \<and> vpr_route_id row = None
               \<and> vpr_latitude row = None \<and> vpr_longitude row = None
               \<and> vpr_speed_kmh row = None \<and> vpr_current_status row = None
               \<and> vpr_vehicle_timestamp row = None)"
  let ?xs = "select_explode_entity bronze"
  have ents: "concat (map (\<lambda>r. explode_col (entity r)) bronze) = map entity_exploded ?xs"
    by (simp only: entities_of_select_explode_entity)
  have each: "?P (entity_exploded x) (vehicle_position_columns ses x)" for x
    using vehicle_position_columns_entity_id [of ses x]
      vehicle_position_columns_no_trip [of x ses]
      vehicle_position_columns_no_position [of x ses]
      vehicle_position_columns_no_vehicle [of x ses]
    by blast
  have "list_all2 ?P (map entity_exploded ?xs) (map (vehicle_position_columns ses) ?xs)"
    unfolding list_all2_map1 list_all2_map2
    by (rule list_all2_same [THEN iffD2]) (use each in blast)
  moreover have "length (silver_vehicle_positions ses bronze) = length (map entity_exploded ?xs)"
    by (simp add: silver_vehicle_positions_def)
  ultimately show ?thesis
    unfolding ents silver_vehicle_positions_def by (intro conjI)
qed

theorem vehicle_positions_one_row_per_entity_witness:
  "map (\<lambda>row. (vpr_entity_id row, vpr_vehicle_id row, vpr_route_id row, vpr_latitude row))
     (silver_vehicle_positions plain_session
        [bronze_doc [vehicle_entity (Some (Finite 10)), trip_entity []]]) =
     [(Some ''v1'', Some ''bus7'', None, Some (Finite 60)), (Some ''e1'', None, None, None)]"
  using vehicle_positions_one_row_per_entity [of plain_session "[bronze_doc [vehicle_entity (Some (Finite 10)), trip_entity []]]"]
  by (simp add: table_defs vehicle_defs trip_entity_def)

text \<open>
  Claim C8 as stated fails: a trip update entity, whose \<^verbatim>\<open>vehicle\<close> field is absent,
  in a record of \<open>bronze_vehicle_positions\<close> gives one row, not none.
\<close>

theorem entity_without_vehicle_yields_row:
  "fe_vehicle (trip_entity []) = None
   \<and> length (silver_vehicle_positions plain_session [bronze_doc [trip_entity []]]) = 1"
  by (simp add: table_defs silver_vehicle_positions_def trip_entity_def)

subsection \<open>silver\_service\_alerts\_entities\<close>

text \<open>
  Claim C9. The rows of \<open>silver_service_alerts_entities\<close> are, alert by alert, the rows
  each alert gives on its own. An alert gives as many rows as its \<open>informed_entities\<close>
  list has elements, each with the alert's \<open>alert_id\<close>, \<open>cause\<close> and \<open>effect\<close> and
  the element's agency, route and stop; and the \<open>cause\<close>, \<open>effect\<close> and
  \<open>informed_entities\<close> of a row of \<open>silver_service_alerts\<close> are those of the
  entity's \<^verbatim>\<open>alert\<close> field.
\<close>

theorem alert_entities_fan_out:
  "silver_service_alerts_entities alerts =
     concat (map (\<lambda>a. silver_service_alerts_entities [a]) alerts)
   \<and> length (silver_service_alerts_entities [a]) = length (explode_col (sa_informed_entities a))
   \<and> map (\<lambda>row. (ae_alert_id row, ae_cause row, ae_effect row,
                  ae_affected_agency_id row, ae_affected_route_id row, ae_affected_stop_id row))
         (silver_service_alerts_entities [a]) =
       map (\<lambda>ie. (sa_alert_id a, sa_cause a, sa_effect a,
                   es_agency_id ie, es_route_id ie, es_stop_id ie))
         (explode_col (sa_informed_entities a))
   \<and> map (\<lambda>a. (sa_cause a, sa_effect a, sa_informed_entities a))
         (silver_service_alerts ses bronze) =
       map (\<lambda>e. (fe_alert e \<bind> al_cause, fe_alert e \<bind> al_effect,
                  fe_alert e \<bind> al_informed_entity))
         (concat (map (\<lambda>r. explode_col (entity r)) bronze))"
proof (intro conjI)
  show "silver_service_alerts_entities alerts =
     concat (map (\<lambda>a. silver_service_alerts_entities [a]) alerts)"
    by (induction alerts) (simp_all add: silver_service_alerts_entities_def)
next
  show "length (silver_service_alerts_entities [a]) = length (explode_col (sa_informed_entities a))"
    by (simp add: silver_service_alerts_entities_def select_explode_informed_entities_def)
next
  show "map (\<lambda>row. (ae_alert_id row, ae_cause row, ae_effect row,
                  ae_affected_agency_id row, ae_affected_route_id row, ae_affected_stop_id row))
         (silver_service_alerts_entities [a]) =
       map (\<lambda>ie. (sa_alert_id a, sa_cause a, sa_effect a,
                   es_agency_id ie, es_route_id ie, es_stop_id ie))
         (explode_col (sa_informed_entities a))"
    by (simp add: silver_service_alerts_entities_def select_explode_informed_entities_def
        alert_entity_columns_def comp_def)
next
  have "map (\<lambda>a. (sa_cause a, sa_effect a, sa_informed_entities a))
         (silver_service_alerts ses bronze) =
       map (\<lambda>e. (fe_alert e \<bind> al_cause, fe_alert e \<bind> al_effect,
                  fe_alert e \<bind> al_informed_entity))
         (map entity_exploded (select_explode_entity bronze))"
    by (simp add: silver_service_alerts_def service_alert_columns_def comp_def)
  then show "map (\<lambda>a. (sa_cause a, sa_effect a, sa_informed_entities a))
         (silver_service_alerts ses bronze) =
       map (\<lambda>e. (fe_alert e \<bind> al_cause, fe_alert e \<bind> al_effect,
                  fe_alert e \<bind> al_informed_entity))
         (concat (map (\<lambda>r. explode_col (entity r)) bronze))"
    by (simp only: entities_of_select_explode_entity)
qed

text \<open>An alert with two informed entities.\<close>

theorem alert_entities_fan_out_witness:
  "map (\<lambda>row. (ae_alert_id row, ae_cause row, ae_effect row, ae_affected_route_id row))
     (silver_service_alerts_entities
        (silver_service_alerts plain_session [bronze_doc [alert_entity]])) =
     [(Some ''a1'', Some ''ACCIDENT'', Some ''DETOUR'', Some ''55''),
      (Some ''a1'', Some ''ACCIDENT'', Some ''DETOUR'', Some ''56'')]"
  using alert_entities_fan_out [where alerts = "silver_service_alerts plain_session [bronze_doc [alert_entity]]"
      and a = "hd (silver_service_alerts plain_session [bronze_doc [alert_entity]])"
      and ses = plain_session and bronze = "[bronze_doc [alert_entity]]"]
  by (simp add: table_defs alert_defs)

end
